theory Spec2Isabelle
  imports Main "HOL-Library.Word"
begin

section \<open>Go values the wallet handles\<close>

text \<open>
  The wallet package (\<^verbatim>\<open>package wallet\<close>) is a thin layer over the Breez SDK bindings.
  The SDK is an external dependency: its calls are parameters of the model (a record of
  response functions), and every operation returns, next to its outcome, the list of SDK
  calls it made, in order.

  Go's \<^verbatim>\<open>int\<close> and \<^verbatim>\<open>int64\<close> are 64-bit two's complement words (the 64-bit targets the SDK
  ships native libraries for), \<^verbatim>\<open>uint32\<close> and \<^verbatim>\<open>uint64\<close> unsigned words; \<^verbatim>\<open>*big.Int\<close> is an
  unbounded \<open>int\<close>.
\<close>

type_synonym int64 = "64 word"
type_synonym uint64 = "64 word"
type_synonym uint32 = "32 word"
type_synonym go_int = "64 word"

text \<open>
  \<^verbatim>\<open>(*big.Int).Int64\<close>: the low 64 bits of the magnitude, negated when the number is
  negative.
\<close>

definition low64 :: "nat \<Rightarrow> uint64" where
  "low64 n = word_of_nat n"

definition Int64 :: "int \<Rightarrow> int64" where
  "Int64 x = (let v = low64 (nat \<bar>x\<bar>) in if x < 0 then - v else v)"

text \<open>
  An \<^verbatim>\<open>error\<close> returned by the SDK is a Go interface value: the nil interface, an interface
  holding a \<^verbatim>\<open>*SdkError\<close> (a nil pointer or a pointer to an error), or an interface holding a
  value of some other type.
\<close>

datatype SdkError = SdkError string

datatype go_error = NilError | SdkErrorPtr "SdkError option" | ForeignError string

text \<open>
  The unchecked type assertion \<^verbatim>\<open>err.(*breez_sdk_spark.SdkError)\<close>: it yields the pointer
  when the interface holds a \<^verbatim>\<open>*SdkError\<close>, and panics on the nil interface and on any other
  dynamic type. \<open>None\<close> is the panic.
\<close>

fun assertSdkError :: "go_error \<Rightarrow> SdkError option option" where
  "assertSdkError NilError = None"
| "assertSdkError (SdkErrorPtr p) = Some p"
| "assertSdkError (ForeignError s) = None"

text \<open>
  Errors built with \<^verbatim>\<open>fmt.Errorf\<close>: the message of the source, and for \<^verbatim>\<open>%w\<close> the wrapped error.
\<close>

datatype error = Errorf string | ErrorfSdk string SdkError | ErrorfOs string string string
  | ErrorfWrap string error

datatype 'a outcome = Panics | Fails error | Returns 'a


section \<open>SDK types\<close>

datatype Network = NetworkMainnet | NetworkRegtest

datatype PaymentType = PaymentTypeSend | PaymentTypeReceive | PaymentTypeOther nat

datatype PaymentStatus = PaymentStatusCompleted | PaymentStatusPending | PaymentStatusFailed
  | PaymentStatusOther nat

text \<open>
  \<^verbatim>\<open>Transaction.Status\<close> and \<^verbatim>\<open>PaymentResponse.Status\<close> are strings: a literal of the source,
  or \<^verbatim>\<open>string(payment.Status)\<close>, the conversion of the status's number to the text of that
  code point, which is kept symbolic since the numbers are the SDK's.
\<close>

datatype status_string = StatusLiteral string | StatusRune PaymentStatus

record SdkConfig =
  ApiKey :: "string option"
  SyncIntervalSecs :: uint32

record SeedMnemonic =
  Mnemonic :: string

record ConnectRequest =
  Config :: SdkConfig
  Seed :: SeedMnemonic
  StorageDir :: string

record TokenMetadata =
  Name :: string
  Ticker :: string
  Decimals :: uint32

record SdkTokenBalance =
  Balance :: int
  TokenMetadata :: TokenMetadata

record GetInfoRequest =
  EnsureSynced :: "bool option"

text \<open>
  \<^verbatim>\<open>TokenBalances\<close> is a Go map; a \<^verbatim>\<open>range\<close> over it visits the entries in an order the
  runtime picks. The list is the entries in the order the loop visits them.
\<close>

record GetInfoResponse =
  BalanceSats :: uint64
  TokenBalances :: "(string \<times> SdkTokenBalance) list"

record ListPaymentsRequest =
  Offset :: "uint32 option"
  Limit :: "uint32 option"

record Payment =
  Id :: string
  PaymentType :: PaymentType
  Status :: PaymentStatus
  Amount :: int
  Fees :: int
  Timestamp :: uint64

record ListPaymentsResponse =
  Payments :: "Payment list"

record GetPaymentRequest =
  PaymentId :: string

record GetPaymentResponse =
  Payment :: Payment

datatype ReceivePaymentMethod =
    ReceivePaymentMethodBolt11Invoice string "uint64 option"
  | ReceivePaymentMethodBitcoinAddress
  | ReceivePaymentMethodSparkAddress

record ReceivePaymentRequest =
  PaymentMethod :: ReceivePaymentMethod

record SdkReceivePaymentResponse =
  PaymentRequest :: string
  Fee :: int

record PrepareSendPaymentRequest =
  PaymentRequest :: string
  Amount :: "int option"

text \<open>The prepare responses are passed on as they are; the wallet reads nothing in them.\<close>

datatype PrepareSendPaymentResponse = PrepareSendPaymentResponse nat

datatype OnchainConfirmationSpeed = OnchainConfirmationSpeedMedium

datatype SendPaymentOptions = SendPaymentOptionsBitcoinAddress OnchainConfirmationSpeed

record SendPaymentRequest =
  PrepareResponse :: PrepareSendPaymentResponse
  Options :: "SendPaymentOptions option"

record SendPaymentResponse =
  Payment :: Payment

datatype LnurlPayRequestDetails = LnurlPayRequestDetails nat

text \<open>
  What \<^verbatim>\<open>Parse\<close> returns: a lightning address with its pay request, or an input of another
  kind (an invoice, a Bitcoin address, a plain LNURL-pay link, a nil interface, ...).
\<close>

datatype InputType = InputTypeLightningAddress LnurlPayRequestDetails | InputTypeOther string

record PrepareLnurlPayRequest =
  AmountSats :: uint64
  PayRequest :: LnurlPayRequestDetails
  Comment :: "string option"
  ValidateSuccessActionUrl :: "bool option"

datatype PrepareLnurlPayResponse = PrepareLnurlPayResponse nat

record LnurlPayRequest =
  PrepareResponse :: PrepareLnurlPayResponse

record LnurlPayResponse =
  Payment :: Payment

text \<open>
  The package-level functions of the SDK and the methods of a connected \<^verbatim>\<open>*BreezSdk\<close>: each
  gives, for a request, the pair the Go call returns. \<^verbatim>\<open>Connect\<close> may return a nil pointer.
\<close>

record BreezSdk =
  sdk_GetInfo :: "GetInfoRequest \<Rightarrow> GetInfoResponse \<times> go_error"
  sdk_ListPayments :: "ListPaymentsRequest \<Rightarrow> ListPaymentsResponse \<times> go_error"
  sdk_GetPayment :: "GetPaymentRequest \<Rightarrow> GetPaymentResponse \<times> go_error"
  sdk_ReceivePayment :: "ReceivePaymentRequest \<Rightarrow> SdkReceivePaymentResponse \<times> go_error"
  sdk_PrepareSendPayment :: "PrepareSendPaymentRequest \<Rightarrow> PrepareSendPaymentResponse \<times> go_error"
  sdk_SendPayment :: "SendPaymentRequest \<Rightarrow> SendPaymentResponse \<times> go_error"
  sdk_Parse :: "string \<Rightarrow> InputType \<times> go_error"
  sdk_PrepareLnurlPay :: "PrepareLnurlPayRequest \<Rightarrow> PrepareLnurlPayResponse \<times> go_error"
  sdk_LnurlPay :: "LnurlPayRequest \<Rightarrow> LnurlPayResponse \<times> go_error"
  sdk_Disconnect :: go_error

record breez_sdk_spark =
  sdk_DefaultConfig :: "Network \<Rightarrow> SdkConfig"
  sdk_Connect :: "ConnectRequest \<Rightarrow> BreezSdk option \<times> go_error"

datatype sdk_call =
    CallDefaultConfig Network
  | CallConnect ConnectRequest
  | CallGetInfo GetInfoRequest
  | CallListPayments ListPaymentsRequest
  | CallGetPayment GetPaymentRequest
  | CallReceivePayment ReceivePaymentRequest
  | CallPrepareSendPayment PrepareSendPaymentRequest
  | CallSendPayment SendPaymentRequest
  | CallParse string
  | CallPrepareLnurlPay PrepareLnurlPayRequest
  | CallLnurlPay LnurlPayRequest
  | CallDisconnect

section \<open>Package config\<close>

record Config =
  BreezAPIKey :: string
  BreezMnemonic :: string
  BreezNetwork :: string
  BreezWorkingDir :: string



section \<open>Package wallet\<close>

record Wallet =
  sdk :: "BreezSdk option"
  config :: Config

record Balance =
  LightningBalanceSats :: int64
  MaxPayableSats :: int64
  MaxReceivableSats :: int64

text \<open>A \<^verbatim>\<open>time.Time\<close> is its Unix time in seconds.\<close>

record Transaction =
  ID :: string
  AmountSats :: int64
  FeeSats :: int64
  Status :: status_string
  Type :: string
  Description :: string
  Timestamp :: int
  PaymentHash :: string

record ReceivePaymentResponse =
  PaymentRequest :: string
  AmountSats :: int64
  FeeSats :: int64
  Description :: string
  ExpiresAt :: int

record PaymentResponse =
  PaymentHash :: string
  AmountSats :: int64
  FeeSats :: int64
  Status :: status_string
  Preimage :: string
  CompletedAt :: int

record TokenBalance =
  TokenID :: string
  Balance :: string
  Name :: string
  Ticker :: string
  Decimals :: go_int

subsection \<open>Helper functions\<close>

text \<open>
  The file system as \<^verbatim>\<open>createWorkingDir\<close> sees it: \<^verbatim>\<open>os.MkdirAll\<close> returns an error or
  nil, \<^verbatim>\<open>os.Stat\<close> an error or whether the path is a directory.
\<close>

record filesystem =
  os_MkdirAll :: "string \<Rightarrow> string option"
  os_Stat :: "string \<Rightarrow> string + bool"

definition createWorkingDir :: "filesystem \<Rightarrow> string \<Rightarrow> error option" where
  "createWorkingDir fs path =
     (if path = [] then Some (Errorf ''working directory path cannot be empty'')
      else case os_MkdirAll fs path of
        Some err \<Rightarrow> Some (ErrorfOs ''failed to create working directory'' path err)
      | None \<Rightarrow>
          (case os_Stat fs path of
             Inl err \<Rightarrow> Some (ErrorfOs ''working directory is not accessible'' path err)
           | Inr isDir \<Rightarrow>
               if \<not> isDir
               then Some (ErrorfOs ''working directory path is not a directory'' path [])
               else None))"

definition networkFromString :: "string \<Rightarrow> Network" where
  "networkFromString network =
     (if network = ''mainnet'' then NetworkMainnet
      else if network = ''testnet'' then NetworkRegtest
      else NetworkRegtest)"

subsection \<open>NewWallet and Close\<close>

text \<open>
  The ten-second \<^verbatim>\<open>time.Sleep\<close> after a successful connect changes no value and is left
  out.
\<close>

definition NewWallet ::
  "breez_sdk_spark \<Rightarrow> filesystem \<Rightarrow> Config \<Rightarrow> Wallet outcome \<times> sdk_call list" where
  "NewWallet pkg fs cfg =
     (case createWorkingDir fs (BreezWorkingDir cfg) of
        Some err \<Rightarrow> (Fails (ErrorfWrap ''failed to create working directory'' err), [])
      | None \<Rightarrow>
          (let network = networkFromString (BreezNetwork cfg);
               sdkConfig = (sdk_DefaultConfig pkg network)
                 \<lparr>ApiKey := Some (BreezAPIKey cfg), SyncIntervalSecs := 60\<rparr>;
               seed = \<lparr>Mnemonic = BreezMnemonic cfg\<rparr>;
               request = \<lparr>Config = sdkConfig, Seed = seed, StorageDir = BreezWorkingDir cfg\<rparr>;
               calls = [CallDefaultConfig network, CallConnect request]
           in case sdk_Connect pkg request of (sdkPtr, err) \<Rightarrow>
             (case assertSdkError err of
                None \<Rightarrow> (Panics, calls)
              | Some (Some sdkErr) \<Rightarrow>
                  (Fails (ErrorfSdk ''failed to connect to Breez SDK'' sdkErr), calls)
              | Some None \<Rightarrow> (Returns \<lparr>sdk = sdkPtr, config = cfg\<rparr>, calls))))"

definition Close :: "Wallet \<Rightarrow> go_error \<times> sdk_call list" where
  "Close w = (case sdk w of Some s \<Rightarrow> (sdk_Disconnect s, [CallDisconnect])
              | None \<Rightarrow> (NilError, []))"


subsection \<open>Queries\<close>

text \<open>
  A method called on a wallet whose \<^verbatim>\<open>sdk\<close> pointer is nil panics. The \<^verbatim>\<open>ctx\<close> argument of
  every method is unused in the source and left out.

  The loop of \<^verbatim>\<open>GetBalance\<close> over the token balances: the first balance whose \<^verbatim>\<open>Int64()\<close>
  is positive replaces \<^verbatim>\<open>balanceSats\<close> and ends the loop.
\<close>

fun GetBalance_loop :: "(string \<times> SdkTokenBalance) list \<Rightarrow> int64 \<Rightarrow> int64" where
  "GetBalance_loop [] balanceSats = balanceSats"
| "GetBalance_loop ((tokenId, balance) # rest) balanceSats =
     (let tokenBalance = Int64 (SdkTokenBalance.Balance balance)
      in if 0 <s tokenBalance then tokenBalance else GetBalance_loop rest balanceSats)"

definition GetBalance :: "Wallet \<Rightarrow> Balance outcome \<times> sdk_call list" where
  "GetBalance w =
     (case sdk w of
        None \<Rightarrow> (Panics, [])
      | Some s \<Rightarrow>
          (let req = \<lparr>EnsureSynced = None\<rparr>; calls = [CallGetInfo req]
           in case sdk_GetInfo s req of (info, err) \<Rightarrow>
             (case assertSdkError err of
                None \<Rightarrow> (Panics, calls)
              | Some (Some sdkErr) \<Rightarrow>
                  (Fails (ErrorfSdk ''failed to get wallet info'' sdkErr), calls)
              | Some None \<Rightarrow>
                  (let balanceSats = BalanceSats info;
                       balanceSats =
                         (if length (TokenBalances info) > 0
                          then GetBalance_loop (TokenBalances info) balanceSats
                          else balanceSats)
                   in (Returns \<lparr>LightningBalanceSats = balanceSats,
                                 MaxPayableSats = balanceSats,
                                 MaxReceivableSats = balanceSats\<rparr>, calls)))))"

text \<open>The status switch, written out twice in the source with the same cases.\<close>

fun statusStr :: "PaymentStatus \<Rightarrow> status_string" where
  "statusStr PaymentStatusPending = StatusLiteral ''Pending''"
| "statusStr PaymentStatusCompleted = StatusLiteral ''Complete''"
| "statusStr PaymentStatusFailed = StatusLiteral ''Failed''"
| "statusStr other = StatusRune other"

text \<open>The body of the loop of \<^verbatim>\<open>GetTransactions\<close>, for one payment of the response.\<close>

definition GetTransactions_body :: "Payment \<Rightarrow> Transaction" where
  "GetTransactions_body payment =
     (let rawAmount = Int64 (Payment.Amount payment);
          fee = Int64 (Payment.Fees payment);
          (txType, amount) =
            (case Payment.PaymentType payment of
               PaymentTypeReceive \<Rightarrow> (''receive'', rawAmount)
             | PaymentTypeSend \<Rightarrow> (''send'', - rawAmount)
             | PaymentTypeOther n \<Rightarrow>
                 if 0 <s rawAmount then (''receive'', rawAmount) else (''send'', rawAmount));
          description = ''Payment''
      in \<lparr>Transaction.ID = Payment.Id payment,
          Transaction.AmountSats = amount,
          Transaction.FeeSats = fee,
          Transaction.Status = statusStr (Payment.Status payment),
          Transaction.Type = txType,
          Transaction.Description = description,
          Transaction.Timestamp = sint (Payment.Timestamp payment),
          Transaction.PaymentHash = Payment.Id payment\<rparr>)"

definition GetTransactions :: "Wallet \<Rightarrow> go_int \<Rightarrow> Transaction list outcome \<times> sdk_call list" where
  "GetTransactions w limit =
     (case sdk w of
        None \<Rightarrow> (Panics, [])
      | Some s \<Rightarrow>
          (let offsetPtr = (0 :: uint32);
               limitPtr = (ucast limit :: uint32);
               limitPtr = (if limitPtr < 10 then 100 else limitPtr);
               req = \<lparr>Offset = Some offsetPtr, Limit = Some limitPtr\<rparr>;
               calls = [CallListPayments req]
           in case sdk_ListPayments s req of (response, err) \<Rightarrow>
             (case assertSdkError err of
                None \<Rightarrow> (Panics, calls)
              | Some (Some sdkErr) \<Rightarrow>
                  (Fails (ErrorfSdk ''failed to get transaction history'' sdkErr), calls)
              | Some None \<Rightarrow> (Returns (map GetTransactions_body (Payments response)), calls))))"

definition GetPayment :: "Wallet \<Rightarrow> string \<Rightarrow> Transaction outcome \<times> sdk_call list" where
  "GetPayment w paymentID =
     (case sdk w of
        None \<Rightarrow> (Panics, [])
      | Some s \<Rightarrow>
          (let req = \<lparr>PaymentId = paymentID\<rparr>; calls = [CallGetPayment req]
           in case sdk_GetPayment s req of (response, err) \<Rightarrow>
             (case assertSdkError err of
                None \<Rightarrow> (Panics, calls)
              | Some (Some sdkErr) \<Rightarrow> (Fails (ErrorfSdk ''failed to get payment'' sdkErr), calls)
              | Some None \<Rightarrow>
                  (let payment = GetPaymentResponse.Payment response;
                       txType = (if 0 <s Int64 (Payment.Amount payment)
                                 then ''receive'' else ''send'')
                   in (Returns \<lparr>Transaction.ID = Payment.Id payment,
                                 Transaction.AmountSats = Int64 (Payment.Amount payment),
                                 Transaction.FeeSats = Int64 (Payment.Fees payment),
                                 Transaction.Status = statusStr (Payment.Status payment),
                                 Transaction.Type = txType,
                                 Transaction.Description = ''Payment'',
                                 Transaction.Timestamp = sint (Payment.Timestamp payment),
                                 Transaction.PaymentHash = Payment.Id payment\<rparr>, calls)))))"





subsection \<open>Receiving\<close>




subsection \<open>Sending\<close>

text \<open>
  The \<^verbatim>\<open>PaymentResponse\<close> every send method builds from the payment the SDK reports;
  \<^verbatim>\<open>Preimage\<close> is not set and keeps the empty string.
\<close>

definition paymentResponse :: "Payment \<Rightarrow> PaymentResponse" where
  "paymentResponse payment =
     \<lparr>PaymentResponse.PaymentHash = Payment.Id payment,
      PaymentResponse.AmountSats = Int64 (Payment.Amount payment),
      PaymentResponse.FeeSats = Int64 (Payment.Fees payment),
      PaymentResponse.Status = StatusRune (Payment.Status payment),
      PaymentResponse.Preimage = [],
      PaymentResponse.CompletedAt = sint (Payment.Timestamp payment)\<rparr>"

text \<open>
  Each send method prepares first and sends only after a prepare without error.
  \<^verbatim>\<open>big.NewInt(amountSats)\<close> is the signed value of the 64-bit amount.
\<close>

definition SendLightningInvoice ::
  "Wallet \<Rightarrow> string \<Rightarrow> PaymentResponse outcome \<times> sdk_call list" where
  "SendLightningInvoice w bolt11 =
     (case sdk w of
        None \<Rightarrow> (Panics, [])
      | Some s \<Rightarrow>
          (let prepareReq = \<lparr>PrepareSendPaymentRequest.PaymentRequest = bolt11,
                             PrepareSendPaymentRequest.Amount = None\<rparr>
           in case sdk_PrepareSendPayment s prepareReq of (prepareResp, err) \<Rightarrow>
             (case assertSdkError err of
                None \<Rightarrow> (Panics, [CallPrepareSendPayment prepareReq])
              | Some (Some sdkErr) \<Rightarrow>
                  (Fails (ErrorfSdk ''failed to prepare lightning payment'' sdkErr),
                   [CallPrepareSendPayment prepareReq])
              | Some None \<Rightarrow>
                  (let sendReq = \<lparr>SendPaymentRequest.PrepareResponse = prepareResp,
                                  Options = None\<rparr>;
                       calls = [CallPrepareSendPayment prepareReq, CallSendPayment sendReq]
                   in case sdk_SendPayment s sendReq of (response, err) \<Rightarrow>
                     (case assertSdkError err of
                        None \<Rightarrow> (Panics, calls)
                      | Some (Some sdkErr) \<Rightarrow>
                          (Fails (ErrorfSdk ''failed to send lightning payment'' sdkErr), calls)
                      | Some None \<Rightarrow>
                          (Returns (paymentResponse (SendPaymentResponse.Payment response)),
                           calls))))))"

definition SendBitcoinAddress ::
  "Wallet \<Rightarrow> string \<Rightarrow> int64 \<Rightarrow> PaymentResponse outcome \<times> sdk_call list" where
  "SendBitcoinAddress w address amountSats =
     (case sdk w of
        None \<Rightarrow> (Panics, [])
      | Some s \<Rightarrow>
          (let amount = sint amountSats;
               prepareReq = \<lparr>PrepareSendPaymentRequest.PaymentRequest = address,
                             PrepareSendPaymentRequest.Amount = Some amount\<rparr>
           in case sdk_PrepareSendPayment s prepareReq of (prepareResp, err) \<Rightarrow>
             (case assertSdkError err of
                None \<Rightarrow> (Panics, [CallPrepareSendPayment prepareReq])
              | Some (Some sdkErr) \<Rightarrow>
                  (Fails (ErrorfSdk ''failed to prepare onchain payment'' sdkErr),
                   [CallPrepareSendPayment prepareReq])
              | Some None \<Rightarrow>
                  (let sendReq = \<lparr>SendPaymentRequest.PrepareResponse = prepareResp,
                                  Options = Some (SendPaymentOptionsBitcoinAddress OnchainConfirmationSpeedMedium)\<rparr>;
                       calls = [CallPrepareSendPayment prepareReq, CallSendPayment sendReq]
                   in case sdk_SendPayment s sendReq of (response, err) \<Rightarrow>
                     (case assertSdkError err of
                        None \<Rightarrow> (Panics, calls)
                      | Some (Some sdkErr) \<Rightarrow>
                          (Fails (ErrorfSdk ''failed to send onchain payment'' sdkErr), calls)
                      | Some None \<Rightarrow>
                          (Returns (paymentResponse (SendPaymentResponse.Payment response)),
                           calls))))))"

definition SendSparkAddress ::
  "Wallet \<Rightarrow> string \<Rightarrow> int64 \<Rightarrow> PaymentResponse outcome \<times> sdk_call list" where
  "SendSparkAddress w sparkAddress amountSats =
     (case sdk w of
        None \<Rightarrow> (Panics, [])
      | Some s \<Rightarrow>
          (let amount = sint amountSats;
               prepareReq = \<lparr>PrepareSendPaymentRequest.PaymentRequest = sparkAddress,
                             PrepareSendPaymentRequest.Amount = Some amount\<rparr>
           in case sdk_PrepareSendPayment s prepareReq of (prepareResp, err) \<Rightarrow>
             (case assertSdkError err of
                None \<Rightarrow> (Panics, [CallPrepareSendPayment prepareReq])
              | Some (Some sdkErr) \<Rightarrow>
                  (Fails (ErrorfSdk ''failed to prepare spark payment'' sdkErr),
                   [CallPrepareSendPayment prepareReq])
              | Some None \<Rightarrow>
                  (let sendReq = \<lparr>SendPaymentRequest.PrepareResponse = prepareResp,
                                  Options = None\<rparr>;
                       calls = [CallPrepareSendPayment prepareReq, CallSendPayment sendReq]
                   in case sdk_SendPayment s sendReq of (response, err) \<Rightarrow>
                     (case assertSdkError err of
                        None \<Rightarrow> (Panics, calls)
                      | Some (Some sdkErr) \<Rightarrow>
                          (Fails (ErrorfSdk ''failed to send spark payment'' sdkErr), calls)
                      | Some None \<Rightarrow>
                          (Returns (paymentResponse (SendPaymentResponse.Payment response)),
                           calls))))))"

definition LnUrlPay ::
  "Wallet \<Rightarrow> string \<Rightarrow> uint64 \<Rightarrow> string \<Rightarrow> PaymentResponse outcome \<times> sdk_call list" where
  "LnUrlPay w lnurlAddress amountSats comment =
     (case sdk w of
        None \<Rightarrow> (Panics, [])
      | Some s \<Rightarrow>
          (case sdk_Parse s lnurlAddress of (input, err) \<Rightarrow>
             (case assertSdkError err of
                None \<Rightarrow> (Panics, [CallParse lnurlAddress])
              | Some (Some sdkErr) \<Rightarrow>
                  (Fails (ErrorfSdk ''failed to parse lnurl address'' sdkErr),
                   [CallParse lnurlAddress])
              | Some None \<Rightarrow>
                  (case input of
                     InputTypeLightningAddress payRequest \<Rightarrow>
                       (let validateSuccessActionUrl = True;
                            prepareReq = \<lparr>PrepareLnurlPayRequest.AmountSats = amountSats,
                                          PayRequest = payRequest,
                                          Comment = Some comment,
                                          ValidateSuccessActionUrl =
                                            Some validateSuccessActionUrl\<rparr>;
                            calls = [CallParse lnurlAddress, CallPrepareLnurlPay prepareReq]
                        in case sdk_PrepareLnurlPay s prepareReq of (prepareResp, err) \<Rightarrow>
                          (case assertSdkError err of
                             None \<Rightarrow> (Panics, calls)
                           | Some (Some sdkErr) \<Rightarrow>
                               (Fails (ErrorfSdk ''failed to prepare lnurl pay'' sdkErr), calls)
                           | Some None \<Rightarrow>
                               (let payReq =
                                      \<lparr>LnurlPayRequest.PrepareResponse = prepareResp\<rparr>;
                                    calls = calls @ [CallLnurlPay payReq]
                                in case sdk_LnurlPay s payReq of (response, err) \<Rightarrow>
                                  (case assertSdkError err of
                                     None \<Rightarrow> (Panics, calls)
                                   | Some (Some sdkErr) \<Rightarrow>
                                       (Fails (ErrorfSdk ''failed to send lnurl payment'' sdkErr),
                                        calls)
                                   | Some None \<Rightarrow>
                                       (Returns (paymentResponse
                                          (LnurlPayResponse.Payment response)), calls)))))
                   | InputTypeOther kind \<Rightarrow>
                       (Fails (Errorf ''unsupported LNURL address type''),
                        [CallParse lnurlAddress])))))"

section \<open>Example environments\<close>

text \<open>
  A file system where every directory can be made, and an SDK over a fixed list of
  payments: every call answers with the error value \<open>err\<close>; \<^verbatim>\<open>ListPayments\<close> returns the
  page the request asks for and \<^verbatim>\<open>GetPayment\<close> the payment with the requested id (the
  first payment of the list stands for the payment of every send).
\<close>

definition example_fs :: filesystem where
  "example_fs = \<lparr>os_MkdirAll = (\<lambda>path. None), os_Stat = (\<lambda>path. Inr True)\<rparr>"

definition no_payment :: Payment where
  "no_payment = \<lparr>Payment.Id = [], Payment.PaymentType = PaymentTypeOther 0, Payment.Status = PaymentStatusOther 0,
                  Payment.Amount = 0, Payment.Fees = 0, Payment.Timestamp = 0\<rparr>"

definition page :: "ListPaymentsRequest \<Rightarrow> Payment list \<Rightarrow> Payment list" where
  "page req payments =
     (let dropped = (case Offset req of None \<Rightarrow> payments | Some off \<Rightarrow> drop (unat off) payments)
      in case Limit req of None \<Rightarrow> dropped | Some lim \<Rightarrow> take (unat lim) dropped)"

definition example_sdk :: "go_error \<Rightarrow> GetInfoResponse \<Rightarrow> Payment list \<Rightarrow> InputType \<Rightarrow> BreezSdk" where
  "example_sdk err info payments input =
     \<lparr>sdk_GetInfo = (\<lambda>req. (info, err)),
      sdk_ListPayments = (\<lambda>req. (\<lparr>Payments = page req payments\<rparr>, err)),
      sdk_GetPayment = (\<lambda>req.
        case find (\<lambda>p. Payment.Id p = PaymentId req) payments of
          Some p \<Rightarrow> (\<lparr>GetPaymentResponse.Payment = p\<rparr>, err)
        | None \<Rightarrow> (\<lparr>GetPaymentResponse.Payment = no_payment\<rparr>,
                    SdkErrorPtr (Some (SdkError ''payment not found'')))),
      sdk_ReceivePayment = (\<lambda>req.
        (\<lparr>SdkReceivePaymentResponse.PaymentRequest = ''lnbc1'', Fee = 0\<rparr>, err)),
      sdk_PrepareSendPayment = (\<lambda>req. (PrepareSendPaymentResponse 1, err)),
      sdk_SendPayment = (\<lambda>req.
        (\<lparr>SendPaymentResponse.Payment = (case payments of [] \<Rightarrow> no_payment | p # ps \<Rightarrow> p)\<rparr>,
         err)),
      sdk_Parse = (\<lambda>text. (input, err)),
      sdk_PrepareLnurlPay = (\<lambda>req. (PrepareLnurlPayResponse 1, err)),
      sdk_LnurlPay = (\<lambda>req.
        (\<lparr>LnurlPayResponse.Payment = (case payments of [] \<Rightarrow> no_payment | p # ps \<Rightarrow> p)\<rparr>,
         err)),
      sdk_Disconnect = err\<rparr>"

definition example_pkg :: "go_error \<Rightarrow> BreezSdk \<Rightarrow> breez_sdk_spark" where
  "example_pkg err s =
     \<lparr>sdk_DefaultConfig = (\<lambda>network. \<lparr>ApiKey = None, SyncIntervalSecs = 0\<rparr>),
      sdk_Connect = (\<lambda>req. (Some s, err))\<rparr>"

definition example_config :: "string \<Rightarrow> string \<Rightarrow> string \<Rightarrow> Config" where
  "example_config key mnemonic network =
     \<lparr>BreezAPIKey = key, BreezMnemonic = mnemonic, BreezNetwork = network,
      BreezWorkingDir = ''.tiny-spark-data''\<rparr>"

definition example_wallet :: "BreezSdk \<Rightarrow> Wallet" where
  "example_wallet s = \<lparr>sdk = Some s, config = example_config ''key'' ''abandon'' ''mainnet''\<rparr>"

definition sent_payment :: Payment where
  "sent_payment = \<lparr>Payment.Id = ''p1'', Payment.PaymentType = PaymentTypeSend, Payment.Status = PaymentStatusCompleted,
                    Payment.Amount = 1000, Payment.Fees = 3, Payment.Timestamp = 1700000000\<rparr>"

definition example_info :: GetInfoResponse where
  "example_info =
     \<lparr>BalanceSats = 5,
      TokenBalances = [(''tok1'', \<lparr>SdkTokenBalance.Balance = 7,
        TokenMetadata = \<lparr>TokenMetadata.Name = ''Token'', TokenMetadata.Ticker = ''TOK'',
          TokenMetadata.Decimals = 2\<rparr>\<rparr>)]\<rparr>"

definition no_error :: go_error where
  "no_error = SdkErrorPtr None"

definition failed_error :: go_error where
  "failed_error = SdkErrorPtr (Some (SdkError ''insufficient funds''))"

definition example_input :: InputType where
  "example_input = InputTypeLightningAddress (LnurlPayRequestDetails 1)"



section \<open>Properties\<close>

subsection \<open>The type assertion\<close>

lemma assertSdkError_Some_None:
  "assertSdkError err = Some None \<longleftrightarrow> err = SdkErrorPtr None"
  by (cases err) auto

subsection \<open>Network selection\<close>

text \<open>
  C9. \<^verbatim>\<open>networkFromString\<close> returns the production network for the exact string
  \<^verbatim>\<open>mainnet\<close> and for nothing else; every other string gives the regtest network. That
  network is the one \<^verbatim>\<open>NewWallet\<close> hands to the SDK: once the working directory is ready
  it asks the SDK for the default configuration of that network and connects with it
  (API key and sync interval set); when the directory cannot be prepared it calls
  nothing.
\<close>

theorem networkFromString_mainnet_only:
  "(networkFromString (BreezNetwork cfg) = NetworkMainnet
      \<longleftrightarrow> BreezNetwork cfg = ''mainnet'')
   \<and> (BreezNetwork cfg \<noteq> ''mainnet''
      \<longrightarrow> networkFromString (BreezNetwork cfg) = NetworkRegtest)
   \<and> (createWorkingDir fs (BreezWorkingDir cfg) = None \<longrightarrow>
        (\<exists>req. snd (NewWallet pkg fs cfg) =
                 [CallDefaultConfig (networkFromString (BreezNetwork cfg)), CallConnect req]
             \<and> Config req = (sdk_DefaultConfig pkg (networkFromString (BreezNetwork cfg)))
                  \<lparr>ApiKey := Some (BreezAPIKey cfg), SyncIntervalSecs := 60\<rparr>))
   \<and> (createWorkingDir fs (BreezWorkingDir cfg) \<noteq> None
      \<longrightarrow> snd (NewWallet pkg fs cfg) = [])"
  by (auto simp: networkFromString_def NewWallet_def Let_def
        split: option.splits prod.splits)

theorem networkFromString_mainnet_only_witness:
  "BreezNetwork (example_config ''key'' ''abandon'' ''Mainnet'') \<noteq> ''mainnet''
   \<and> networkFromString ''Mainnet'' = NetworkRegtest
   \<and> createWorkingDir example_fs ''.tiny-spark-data'' = None
   \<and> (\<exists>req. snd (NewWallet
           (example_pkg no_error (example_sdk no_error example_info [] example_input))
           example_fs (example_config ''key'' ''abandon'' ''Mainnet''))
         = [CallDefaultConfig NetworkRegtest, CallConnect req])"
  using networkFromString_mainnet_only
    [of "example_config ''key'' ''abandon'' ''Mainnet''" example_fs
      "example_pkg no_error (example_sdk no_error example_info [] example_input)"]
  by (auto simp: example_config_def example_fs_def createWorkingDir_def)

subsection \<open>Prepare before send\<close>

text \<open>
  C10. In each of the three send methods (Lightning invoice, on-chain address, Spark
  address), when the SDK's prepare call reports an error the method returns the
  "failed to prepare" error at once, and the only SDK call it has made is the prepare
  call: the send call is not made. More generally, whatever error value other than
  "no error" the prepare call returns, the prepare call stays the only call.
\<close>

theorem prepare_failure_never_sends:
  assumes w: "sdk w = Some s"
  shows "(sdk_PrepareSendPayment s
            \<lparr>PrepareSendPaymentRequest.PaymentRequest = bolt11,
             PrepareSendPaymentRequest.Amount = None\<rparr> = (resp1, SdkErrorPtr (Some e1)) \<longrightarrow>
          SendLightningInvoice w bolt11 =
            (Fails (ErrorfSdk ''failed to prepare lightning payment'' e1),
             [CallPrepareSendPayment \<lparr>PrepareSendPaymentRequest.PaymentRequest = bolt11,
                PrepareSendPaymentRequest.Amount = None\<rparr>]))
       \<and> (sdk_PrepareSendPayment s
            \<lparr>PrepareSendPaymentRequest.PaymentRequest = address,
             PrepareSendPaymentRequest.Amount = Some (sint amountSats)\<rparr>
              = (resp2, SdkErrorPtr (Some e2)) \<longrightarrow>
          SendBitcoinAddress w address amountSats =
            (Fails (ErrorfSdk ''failed to prepare onchain payment'' e2),
             [CallPrepareSendPayment \<lparr>PrepareSendPaymentRequest.PaymentRequest = address,
                PrepareSendPaymentRequest.Amount = Some (sint amountSats)\<rparr>])
        \<and> SendSparkAddress w address amountSats =
            (Fails (ErrorfSdk ''failed to prepare spark payment'' e2),
             [CallPrepareSendPayment \<lparr>PrepareSendPaymentRequest.PaymentRequest = address,
                PrepareSendPaymentRequest.Amount = Some (sint amountSats)\<rparr>]))
       \<and> (snd (sdk_PrepareSendPayment s
            \<lparr>PrepareSendPaymentRequest.PaymentRequest = bolt11,
             PrepareSendPaymentRequest.Amount = None\<rparr>) \<noteq> SdkErrorPtr None \<longrightarrow>
          snd (SendLightningInvoice w bolt11) =
             [CallPrepareSendPayment \<lparr>PrepareSendPaymentRequest.PaymentRequest = bolt11,
                PrepareSendPaymentRequest.Amount = None\<rparr>])
       \<and> (snd (sdk_PrepareSendPayment s
            \<lparr>PrepareSendPaymentRequest.PaymentRequest = address,
             PrepareSendPaymentRequest.Amount = Some (sint amountSats)\<rparr>)
              \<noteq> SdkErrorPtr None \<longrightarrow>
          snd (SendBitcoinAddress w address amountSats) =
             [CallPrepareSendPayment \<lparr>PrepareSendPaymentRequest.PaymentRequest = address,
                PrepareSendPaymentRequest.Amount = Some (sint amountSats)\<rparr>]
        \<and> snd (SendSparkAddress w address amountSats) =
             [CallPrepareSendPayment \<lparr>PrepareSendPaymentRequest.PaymentRequest = address,
                PrepareSendPaymentRequest.Amount = Some (sint amountSats)\<rparr>])"
  using w
  by (auto simp: SendLightningInvoice_def SendBitcoinAddress_def SendSparkAddress_def
        Let_def assertSdkError_Some_None split: prod.splits option.splits)

theorem prepare_failure_never_sends_witness:
  "sdk (example_wallet (example_sdk failed_error example_info [sent_payment] example_input))
     = Some (example_sdk failed_error example_info [sent_payment] example_input)
   \<and> sdk_PrepareSendPayment (example_sdk failed_error example_info [sent_payment] example_input)
        \<lparr>PrepareSendPaymentRequest.PaymentRequest = ''bc1qaddr'',
         PrepareSendPaymentRequest.Amount = Some (sint (1000 :: int64))\<rparr>
       = (PrepareSendPaymentResponse 1, SdkErrorPtr (Some (SdkError ''insufficient funds'')))
   \<and> SendBitcoinAddress
        (example_wallet (example_sdk failed_error example_info [sent_payment] example_input))
        ''bc1qaddr'' 1000
       = (Fails (ErrorfSdk ''failed to prepare onchain payment'' (SdkError ''insufficient funds'')),
          [CallPrepareSendPayment \<lparr>PrepareSendPaymentRequest.PaymentRequest = ''bc1qaddr'',
             PrepareSendPaymentRequest.Amount = Some (sint (1000 :: int64))\<rparr>])"
  using prepare_failure_never_sends
    [of "example_wallet (example_sdk failed_error example_info [sent_payment] example_input)"
        "example_sdk failed_error example_info [sent_payment] example_input"
        "''lnbc1''" "PrepareSendPaymentResponse 1" "SdkError ''insufficient funds''"
        "''bc1qaddr''" 1000 "PrepareSendPaymentResponse 1" "SdkError ''insufficient funds''"]
  by (simp add: example_wallet_def example_sdk_def failed_error_def)

subsection \<open>Paying a lightning address\<close>

text \<open>
  C7. When \<^verbatim>\<open>Parse\<close> resolves the alias, without error, to anything that is not a
  lightning address, \<^verbatim>\<open>LnUrlPay\<close> fails with "unsupported LNURL address type", and the
  parse call is the only SDK call made: neither the prepare nor the pay call happens.
\<close>

theorem LnUrlPay_unsupported_type:
  assumes "sdk w = Some s"
    and "sdk_Parse s lnurlAddress = (input, SdkErrorPtr None)"
    and "\<forall>payRequest. input \<noteq> InputTypeLightningAddress payRequest"
  shows "LnUrlPay w lnurlAddress amountSats comment =
           (Fails (Errorf ''unsupported LNURL address type''), [CallParse lnurlAddress])"
  using assms by (cases input) (simp_all add: LnUrlPay_def)

theorem LnUrlPay_unsupported_type_witness:
  "sdk_Parse (example_sdk no_error example_info [] (InputTypeOther ''bolt11 invoice''))
       ''user@domain'' = (InputTypeOther ''bolt11 invoice'', SdkErrorPtr None)
   \<and> LnUrlPay (example_wallet (example_sdk no_error example_info []
                  (InputTypeOther ''bolt11 invoice''))) ''user@domain'' 21 ''hi''
       = (Fails (Errorf ''unsupported LNURL address type''), [CallParse ''user@domain''])"
proof -
  let ?s = "example_sdk no_error example_info [] (InputTypeOther ''bolt11 invoice'')"
  have h1: "sdk (example_wallet ?s) = Some ?s"
    by (simp add: example_wallet_def)
  have h2: "sdk_Parse ?s ''user@domain'' = (InputTypeOther ''bolt11 invoice'', SdkErrorPtr None)"
    by (simp add: example_sdk_def no_error_def)
  have h3: "\<forall>payRequest. InputTypeOther ''bolt11 invoice'' \<noteq> InputTypeLightningAddress payRequest"
    by simp
  show ?thesis
    using h2 LnUrlPay_unsupported_type [OF h1 h2 h3, of 21 "''hi''"] by simp
qed

subsection \<open>Numbers\<close>

lemma Int64_word_of_int: "Int64 x = word_of_int x"
  by (simp add: Int64_def low64_def Let_def word_of_nat_eq_iff)

lemma sint_Int64:
  assumes "- (2 ^ 63) \<le> x" and "x < 2 ^ 63"
  shows "sint (Int64 x) = x"
  using assms by (simp add: Int64_word_of_int sint_sbintrunc' signed_take_bit_int_eq_self)

lemma Int64_positive:
  assumes "- (2 ^ 63) \<le> x" and "x < 2 ^ 63"
  shows "(0 <s Int64 x) = (0 < x)"
  using sint_Int64 [OF assms] by (simp add: word_sless_alt)

subsection \<open>Listing payments\<close>

lemma GetTransactions_calls:
  "sdk w = Some s \<Longrightarrow>
   snd (GetTransactions w limit) =
     [CallListPayments \<lparr>Offset = Some 0,
        Limit = Some (if (ucast limit :: uint32) < 10 then 100 else ucast limit)\<rparr>]"
  by (simp add: GetTransactions_def Let_def split: prod.splits option.splits)

lemma GetTransactions_returns:
  "sdk w = Some s \<Longrightarrow>
   sdk_ListPayments s \<lparr>Offset = Some 0,
        Limit = Some (if (ucast limit :: uint32) < 10 then 100 else ucast limit)\<rparr>
     = (response, SdkErrorPtr None) \<Longrightarrow>
   fst (GetTransactions w limit) = Returns (map GetTransactions_body (Payments response))"
  by (simp add: GetTransactions_def Let_def)

lemma GetTransactions_body_Type:
  "Transaction.Type (GetTransactions_body p) =
     (case Payment.PaymentType p of
        PaymentTypeReceive \<Rightarrow> ''receive''
      | PaymentTypeSend \<Rightarrow> ''send''
      | PaymentTypeOther n \<Rightarrow> if 0 <s Int64 (Payment.Amount p) then ''receive'' else ''send'')"
  by (simp add: GetTransactions_body_def Let_def split: PaymentType.splits)

text \<open>
  C5. For every payment of the response that \<^verbatim>\<open>GetTransactions\<close> turns into a
  transaction (the transaction at the same position): a payment tagged as a receive
  gets the type "receive" and one tagged as a send the type "send", whatever its amount;
  with any other tag the type is "receive" exactly when the raw amount (the payment's
  amount read with \<^verbatim>\<open>Int64()\<close>) is positive, and "send" otherwise. For an amount that
  fits 64 bits the raw amount is positive exactly when the amount is.
\<close>

theorem GetTransactions_direction:
  assumes "sdk w = Some s"
    and "snd (GetTransactions w limit) = [CallListPayments req]"
    and "sdk_ListPayments s req = (response, SdkErrorPtr None)"
    and "i < length (Payments response)"
  shows "\<exists>txs. fst (GetTransactions w limit) = Returns txs
           \<and> length txs = length (Payments response)
           \<and> (Payment.PaymentType (Payments response ! i) = PaymentTypeReceive
                \<longrightarrow> Transaction.Type (txs ! i) = ''receive'')
           \<and> (Payment.PaymentType (Payments response ! i) = PaymentTypeSend
                \<longrightarrow> Transaction.Type (txs ! i) = ''send'')
           \<and> (Payment.PaymentType (Payments response ! i) \<noteq> PaymentTypeReceive
                \<and> Payment.PaymentType (Payments response ! i) \<noteq> PaymentTypeSend
                \<longrightarrow> (Transaction.Type (txs ! i) = ''receive''
                       \<longleftrightarrow> 0 <s Int64 (Payment.Amount (Payments response ! i)))
                  \<and> (Transaction.Type (txs ! i) = ''send''
                       \<longleftrightarrow> \<not> 0 <s Int64 (Payment.Amount (Payments response ! i))))
           \<and> (- (2 ^ 63) \<le> Payment.Amount (Payments response ! i)
                \<and> Payment.Amount (Payments response ! i) < 2 ^ 63
                \<longrightarrow> (0 <s Int64 (Payment.Amount (Payments response ! i)))
                      = (0 < Payment.Amount (Payments response ! i)))"
proof -
  let ?req = "\<lparr>Offset = Some 0,
        Limit = Some (if (ucast limit :: uint32) < 10 then 100 else ucast limit)\<rparr>"
  have "req = ?req"
    using assms(2) GetTransactions_calls [OF assms(1), of limit] by simp
  then have ret: "fst (GetTransactions w limit)
      = Returns (map GetTransactions_body (Payments response))"
    using GetTransactions_returns [OF assms(1), of limit response] assms(3) by simp
  have ty: "Transaction.Type (map GetTransactions_body (Payments response) ! i) =
     (case Payment.PaymentType (Payments response ! i) of
        PaymentTypeReceive \<Rightarrow> ''receive''
      | PaymentTypeSend \<Rightarrow> ''send''
      | PaymentTypeOther n \<Rightarrow>
          if 0 <s Int64 (Payment.Amount (Payments response ! i)) then ''receive'' else ''send'')"
    using assms(4) by (simp add: GetTransactions_body_Type)
  show ?thesis
    using ret ty Int64_positive [of "Payment.Amount (Payments response ! i)"]
    by (auto split: PaymentType.splits)
qed

theorem GetTransactions_direction_witness:
  "sdk_ListPayments (example_sdk no_error example_info
        [sent_payment, sent_payment\<lparr>Payment.PaymentType := PaymentTypeOther 7\<rparr>] example_input)
      \<lparr>Offset = Some 0, Limit = Some 10\<rparr>
     = (\<lparr>Payments = [sent_payment, sent_payment\<lparr>Payment.PaymentType := PaymentTypeOther 7\<rparr>]\<rparr>,
        SdkErrorPtr None)
   \<and> (\<exists>txs. fst (GetTransactions (example_wallet (example_sdk no_error example_info
        [sent_payment, sent_payment\<lparr>Payment.PaymentType := PaymentTypeOther 7\<rparr>] example_input))
          10) = Returns txs
         \<and> Transaction.Type (txs ! 0) = ''send'' \<and> Transaction.Type (txs ! 1) = ''receive'')"
proof -
  let ?ps = "[sent_payment, sent_payment\<lparr>Payment.PaymentType := PaymentTypeOther 7\<rparr>]"
  let ?s = "example_sdk no_error example_info ?ps example_input"
  let ?req = "\<lparr>Offset = Some (0 :: uint32), Limit = Some (10 :: uint32)\<rparr>"
  have h1: "sdk (example_wallet ?s) = Some ?s"
    by (simp add: example_wallet_def)
  have h2: "snd (GetTransactions (example_wallet ?s) 10) = [CallListPayments ?req]"
    by (simp add: GetTransactions_calls [OF h1])
  have h3: "sdk_ListPayments ?s ?req = (\<lparr>Payments = ?ps\<rparr>, SdkErrorPtr None)"
    by (simp add: example_sdk_def no_error_def page_def)
  have a: "(0 :: nat) < length (Payments \<lparr>Payments = ?ps\<rparr>)" by simp
  have b: "(1 :: nat) < length (Payments \<lparr>Payments = ?ps\<rparr>)" by simp
  show ?thesis
    using h3 GetTransactions_direction [OF h1 h2 h3 a] GetTransactions_direction [OF h1 h2 h3 b]
    by (auto simp: sent_payment_def Int64_word_of_int word_sless_alt)
qed

lemma uint_of_nonneg_sint:
  fixes limit :: go_int
  assumes "0 \<le> sint limit"
  shows "uint limit = sint limit"
proof -
  have "sint limit < 2 ^ 63"
    using sint_less [of limit] by simp
  then have "sint limit < 2 ^ 64" by simp
  then have "take_bit 64 (sint limit) = sint limit"
    using assms by (simp add: take_bit_int_eq_self)
  then show ?thesis
    using uint_sint [of limit] by simp
qed

lemma uint_ucast_limit:
  fixes limit :: go_int
  shows "uint (ucast limit :: uint32) = uint limit mod 2 ^ 32"
  by (simp add: unsigned_ucast_eq take_bit_eq_mod)

lemma limit_small:
  fixes limit :: go_int
  assumes "0 \<le> sint limit" and "sint limit < 10"
  shows "(ucast limit :: uint32) < 10"
proof -
  have "uint (ucast limit :: uint32) = sint limit"
    using assms uint_of_nonneg_sint [OF assms(1)] by (simp add: uint_ucast_limit)
  then show ?thesis
    using assms(2) by (simp add: word_less_alt)
qed

lemma limit_large:
  fixes limit :: go_int
  assumes "10 \<le> sint limit" and "sint limit < 2 ^ 32"
  shows "\<not> (ucast limit :: uint32) < 10 \<and> uint (ucast limit :: uint32) = sint limit"
proof -
  have "0 \<le> sint limit" using assms(1) by simp
  then have "uint (ucast limit :: uint32) = sint limit"
    using assms uint_of_nonneg_sint [of limit] by (simp add: uint_ucast_limit)
  then show ?thesis
    using assms(1) by (simp add: word_less_alt)
qed

lemma GetTransactions_body_ID: "Transaction.ID (GetTransactions_body p) = Payment.Id p"
  by (simp add: GetTransactions_body_def Let_def split: PaymentType.splits prod.splits)

text \<open>
  C8, as the code has it. \<^verbatim>\<open>GetTransactions\<close> asks the SDK for one page at offset 0.
  For a limit from 0 to 9 the page size asked for is 100; for a limit from 10 up to
  \<open>2^32 - 1\<close> it is the limit itself (the SDK's page size is a \<^verbatim>\<open>uint32\<close>, and the limit is
  converted to it). Whatever the page the SDK returns without error, the result has one
  transaction for each of its payments, in the same order.
\<close>

theorem GetTransactions_page_size:
  assumes "sdk w = Some s"
  shows "\<exists>lim. snd (GetTransactions w limit)
             = [CallListPayments \<lparr>Offset = Some 0, Limit = Some lim\<rparr>]
           \<and> (0 \<le> sint limit \<and> sint limit < 10 \<longrightarrow> lim = 100)
           \<and> (10 \<le> sint limit \<and> sint limit < 2 ^ 32 \<longrightarrow> uint lim = sint limit)
           \<and> (\<forall>response.
                sdk_ListPayments s \<lparr>Offset = Some 0, Limit = Some lim\<rparr>
                  = (response, SdkErrorPtr None) \<longrightarrow>
                (\<exists>txs. fst (GetTransactions w limit) = Returns txs
                   \<and> map Transaction.ID txs = map Payment.Id (Payments response)))"
proof -
  let ?lim = "if (ucast limit :: uint32) < 10 then 100 else (ucast limit :: uint32)"
  have calls: "snd (GetTransactions w limit)
      = [CallListPayments \<lparr>Offset = Some 0, Limit = Some ?lim\<rparr>]"
    using GetTransactions_calls [OF assms, of limit] by simp
  have small: "0 \<le> sint limit \<and> sint limit < 10 \<longrightarrow> ?lim = 100"
    using limit_small [of limit] by simp
  have large: "10 \<le> sint limit \<and> sint limit < 2 ^ 32 \<longrightarrow> uint ?lim = sint limit"
    using limit_large [of limit] by simp
  have keep: "\<forall>response.
      sdk_ListPayments s \<lparr>Offset = Some 0, Limit = Some ?lim\<rparr>
        = (response, SdkErrorPtr None) \<longrightarrow>
      (\<exists>txs. fst (GetTransactions w limit) = Returns txs
         \<and> map Transaction.ID txs = map Payment.Id (Payments response))"
  proof (intro allI impI)
    fix response
    assume "sdk_ListPayments s \<lparr>Offset = Some 0, Limit = Some ?lim\<rparr>
        = (response, SdkErrorPtr None)"
    then have "fst (GetTransactions w limit)
        = Returns (map GetTransactions_body (Payments response))"
      using GetTransactions_returns [OF assms, of limit response] by simp
    then show "\<exists>txs. fst (GetTransactions w limit) = Returns txs
         \<and> map Transaction.ID txs = map Payment.Id (Payments response)"
      by (simp add: GetTransactions_body_ID comp_def)
  qed
  show ?thesis
    using calls small large keep by blast
qed

theorem GetTransactions_page_size_witness:
  "(10 :: int) \<le> sint (25 :: go_int) \<and> sint (25 :: go_int) < (2 :: int) ^ 32
   \<and> (\<exists>lim. snd (GetTransactions (example_wallet
            (example_sdk no_error example_info [sent_payment] example_input)) 25)
          = [CallListPayments \<lparr>Offset = Some 0, Limit = Some lim\<rparr>] \<and> uint lim = 25)
   \<and> (\<exists>txs. fst (GetTransactions (example_wallet
            (example_sdk no_error example_info [sent_payment] example_input)) 25) = Returns txs
          \<and> map Transaction.ID txs = [''p1''])"
proof -
  let ?s = "example_sdk no_error example_info [sent_payment] example_input"
  have h: "sdk (example_wallet ?s) = Some ?s"
    by (simp add: example_wallet_def)
  have r: "\<And>lim. sdk_ListPayments ?s \<lparr>Offset = Some 0, Limit = Some lim\<rparr>
      = (\<lparr>Payments = take (unat lim) [sent_payment]\<rparr>, SdkErrorPtr None)"
    by (simp add: example_sdk_def no_error_def page_def)
  have c: "snd (GetTransactions (example_wallet ?s) 25)
      = [CallListPayments \<lparr>Offset = Some 0, Limit = Some 25\<rparr>]"
    by (simp add: GetTransactions_calls [OF h])
  show ?thesis
    using GetTransactions_page_size [OF h, of 25] c r [of 25]
    by (auto simp: sent_payment_def)
qed

text \<open>
  The limit \<open>2^32 + 20\<close> is at least 10, and the page size asked for is 20.
\<close>

theorem GetTransactions_page_size_counterexample:
  "(10 :: int) \<le> sint (4294967316 :: go_int)
   \<and> snd (GetTransactions (example_wallet
            (example_sdk no_error example_info [sent_payment] example_input)) 4294967316)
       = [CallListPayments \<lparr>Offset = Some 0, Limit = Some 20\<rparr>]"
  by (simp add: GetTransactions_def example_wallet_def Let_def example_sdk_def no_error_def)


subsection \<open>Balance\<close>

lemma GetBalance_loop_find:
  "GetBalance_loop tbs balanceSats =
     (case find (\<lambda>(tokenId, t). 0 <s Int64 (SdkTokenBalance.Balance t)) tbs of
        None \<Rightarrow> balanceSats
      | Some (tokenId, t) \<Rightarrow> Int64 (SdkTokenBalance.Balance t))"
  by (induction tbs balanceSats rule: GetBalance_loop.induct) (simp_all add: Let_def)

lemma GetBalance_returns:
  assumes "sdk w = Some s"
    and "sdk_GetInfo s \<lparr>EnsureSynced = None\<rparr> = (info, SdkErrorPtr None)"
  shows "fst (GetBalance w) =
           Returns \<lparr>LightningBalanceSats = GetBalance_loop (TokenBalances info) (BalanceSats info),
                    MaxPayableSats = GetBalance_loop (TokenBalances info) (BalanceSats info),
                    MaxReceivableSats = GetBalance_loop (TokenBalances info) (BalanceSats info)\<rparr>"
  using assms by (cases "TokenBalances info") (simp_all add: GetBalance_def Let_def)

lemma find_positive_in_range:
  assumes "\<forall>entry \<in> set tbs. - (2 ^ 63) \<le> SdkTokenBalance.Balance (snd entry)
                \<and> SdkTokenBalance.Balance (snd entry) < 2 ^ 63"
  shows "find (\<lambda>(tokenId, t). 0 <s Int64 (SdkTokenBalance.Balance t)) tbs
       = find (\<lambda>(tokenId, t). 0 < SdkTokenBalance.Balance t) tbs"
proof (rule find_cong)
  show "tbs = tbs" by simp
next
  fix x assume "x \<in> set tbs"
  then have "- (2 ^ 63) \<le> SdkTokenBalance.Balance (snd x)"
      and "SdkTokenBalance.Balance (snd x) < 2 ^ 63"
    using assms by auto
  then show "(case x of (tokenId, t) \<Rightarrow> 0 <s Int64 (SdkTokenBalance.Balance t))
      = (case x of (tokenId, t) \<Rightarrow> 0 < SdkTokenBalance.Balance t)"
    using Int64_positive [of "SdkTokenBalance.Balance (snd x)"] by (cases x) simp
qed

text \<open>
  C1, as the code has it. When \<^verbatim>\<open>GetInfo\<close> returns without error, \<^verbatim>\<open>GetBalance\<close> looks
  at each token balance through \<^verbatim>\<open>Int64()\<close>, its low 64 bits read as a signed number. The
  spendable amount it returns is the \<^verbatim>\<open>Int64()\<close> value of the first token balance, in the
  order the loop visits them, whose \<^verbatim>\<open>Int64()\<close> value is positive, whatever the primary
  balance is; when no token balance has a positive \<^verbatim>\<open>Int64()\<close> value, it is the primary
  balance unchanged. When every token balance fits 64 bits signed (from \<open>-2^63\<close> up to
  \<open>2^63 - 1\<close>), that is: the first positive token balance itself, or the primary balance
  when no token balance is positive. The two limits equal the spendable amount.
\<close>

theorem GetBalance_token_substitution:
  assumes "sdk w = Some s"
    and "sdk_GetInfo s \<lparr>EnsureSynced = None\<rparr> = (info, SdkErrorPtr None)"
  shows "\<exists>b. fst (GetBalance w) = Returns b
           \<and> MaxPayableSats b = LightningBalanceSats b
           \<and> MaxReceivableSats b = LightningBalanceSats b
           \<and> LightningBalanceSats b =
               (case find (\<lambda>(tokenId, t). 0 <s Int64 (SdkTokenBalance.Balance t))
                       (TokenBalances info) of
                  None \<Rightarrow> BalanceSats info
                | Some (tokenId, t) \<Rightarrow> Int64 (SdkTokenBalance.Balance t))
           \<and> ((\<forall>entry \<in> set (TokenBalances info).
                  \<not> 0 <s Int64 (SdkTokenBalance.Balance (snd entry)))
                \<longrightarrow> LightningBalanceSats b = BalanceSats info)
           \<and> ((\<forall>entry \<in> set (TokenBalances info).
                  - (2 ^ 63) \<le> SdkTokenBalance.Balance (snd entry)
                  \<and> SdkTokenBalance.Balance (snd entry) < 2 ^ 63)
                \<longrightarrow> (case find (\<lambda>(tokenId, t). 0 < SdkTokenBalance.Balance t)
                             (TokenBalances info) of
                        None \<Rightarrow> LightningBalanceSats b = BalanceSats info
                      | Some (tokenId, t) \<Rightarrow>
                          sint (LightningBalanceSats b) = SdkTokenBalance.Balance t))"
proof -
  let ?b = "GetBalance_loop (TokenBalances info) (BalanceSats info)"
  have none: "(\<forall>entry \<in> set (TokenBalances info).
                  \<not> 0 <s Int64 (SdkTokenBalance.Balance (snd entry)))
      \<longrightarrow> find (\<lambda>(tokenId, t). 0 <s Int64 (SdkTokenBalance.Balance t)) (TokenBalances info)
            = None"
    by (auto simp: find_None_iff)
  have range: "(\<forall>entry \<in> set (TokenBalances info).
                  - (2 ^ 63) \<le> SdkTokenBalance.Balance (snd entry)
                  \<and> SdkTokenBalance.Balance (snd entry) < 2 ^ 63)
      \<longrightarrow> (case find (\<lambda>(tokenId, t). 0 < SdkTokenBalance.Balance t) (TokenBalances info) of
             None \<Rightarrow> ?b = BalanceSats info
           | Some (tokenId, t) \<Rightarrow> sint ?b = SdkTokenBalance.Balance t)"
  proof
    assume r: "\<forall>entry \<in> set (TokenBalances info).
                  - (2 ^ 63) \<le> SdkTokenBalance.Balance (snd entry)
                  \<and> SdkTokenBalance.Balance (snd entry) < 2 ^ 63"
    show "case find (\<lambda>(tokenId, t). 0 < SdkTokenBalance.Balance t) (TokenBalances info) of
             None \<Rightarrow> ?b = BalanceSats info
           | Some (tokenId, t) \<Rightarrow> sint ?b = SdkTokenBalance.Balance t"
    proof (cases "find (\<lambda>(tokenId, t). 0 < SdkTokenBalance.Balance t) (TokenBalances info)")
      case None
      then show ?thesis
        using find_positive_in_range [OF r] by (simp add: GetBalance_loop_find)
    next
      case (Some entry)
      then have "entry \<in> set (TokenBalances info)"
        by (auto simp: find_Some_iff in_set_conv_nth)
      then have "sint (Int64 (SdkTokenBalance.Balance (snd entry)))
          = SdkTokenBalance.Balance (snd entry)"
        using r sint_Int64 [of "SdkTokenBalance.Balance (snd entry)"] by auto
      then show ?thesis
        using Some find_positive_in_range [OF r]
        by (cases entry) (simp add: GetBalance_loop_find)
    qed
  qed
  show ?thesis
    using GetBalance_returns [OF assms] none range
    by (auto simp: GetBalance_loop_find split: option.splits)
qed

theorem GetBalance_token_substitution_witness:
  "sdk_GetInfo (example_sdk no_error
       (example_info\<lparr>BalanceSats := 0\<rparr>) [] example_input) \<lparr>EnsureSynced = None\<rparr>
     = (example_info\<lparr>BalanceSats := 0\<rparr>, SdkErrorPtr None)
   \<and> (\<exists>b. fst (GetBalance (example_wallet (example_sdk no_error
              (example_info\<lparr>BalanceSats := 0\<rparr>) [] example_input))) = Returns b
          \<and> LightningBalanceSats b = 7)"
proof -
  let ?info = "example_info\<lparr>BalanceSats := 0\<rparr>"
  let ?s = "example_sdk no_error ?info [] example_input"
  have h1: "sdk (example_wallet ?s) = Some ?s"
    by (simp add: example_wallet_def)
  have h2: "sdk_GetInfo ?s \<lparr>EnsureSynced = None\<rparr> = (?info, SdkErrorPtr None)"
    by (simp add: example_sdk_def no_error_def)
  show ?thesis
    using h2 GetBalance_token_substitution [OF h1 h2]
    by (auto simp: example_info_def Int64_word_of_int word_sless_alt)
qed

text \<open>
  A primary balance of 5 with a token balance of 7: the spendable amount returned is 7.
\<close>

theorem GetBalance_token_substitution_counterexample:
  "sdk_GetInfo (example_sdk no_error example_info [] example_input) \<lparr>EnsureSynced = None\<rparr>
     = (example_info, SdkErrorPtr None)
   \<and> BalanceSats example_info = 5
   \<and> fst (GetBalance (example_wallet (example_sdk no_error example_info [] example_input)))
     = Returns \<lparr>LightningBalanceSats = 7, MaxPayableSats = 7, MaxReceivableSats = 7\<rparr>"
  by (simp add: GetBalance_def example_wallet_def example_sdk_def no_error_def example_info_def
        Let_def Int64_word_of_int word_sless_alt)

text \<open>
  A token balance of \<open>2^63\<close> does not fit 64 bits signed: its \<^verbatim>\<open>Int64()\<close> value is negative, so
  the loop passes over it. Alone it leaves the primary balance 5 in place; followed by a
  token balance of 7, the 7 is returned.
\<close>

lemma GetBalance_passes_over_large_balance:
  "fst (GetBalance (example_wallet (example_sdk no_error
       (example_info\<lparr>TokenBalances := [(''big'', \<lparr>SdkTokenBalance.Balance = 2 ^ 63,
          TokenMetadata = \<lparr>TokenMetadata.Name = ''Big'', TokenMetadata.Ticker = ''BIG'',
            TokenMetadata.Decimals = 0\<rparr>\<rparr>)]\<rparr>) [] example_input)))
     = Returns \<lparr>LightningBalanceSats = 5, MaxPayableSats = 5, MaxReceivableSats = 5\<rparr>
   \<and> fst (GetBalance (example_wallet (example_sdk no_error
       (example_info\<lparr>TokenBalances := (''big'', \<lparr>SdkTokenBalance.Balance = 2 ^ 63,
          TokenMetadata = \<lparr>TokenMetadata.Name = ''Big'', TokenMetadata.Ticker = ''BIG'',
            TokenMetadata.Decimals = 0\<rparr>\<rparr>) # TokenBalances example_info\<rparr>) [] example_input)))
     = Returns \<lparr>LightningBalanceSats = 7, MaxPayableSats = 7, MaxReceivableSats = 7\<rparr>"
  by (simp add: GetBalance_def example_wallet_def example_sdk_def no_error_def example_info_def
        Let_def Int64_word_of_int word_sless_alt)

subsection \<open>Sending to an on-chain address\<close>

lemma SendBitcoinAddress_returns:
  assumes "sdk w = Some s"
    and "sdk_PrepareSendPayment s
           \<lparr>PrepareSendPaymentRequest.PaymentRequest = address,
            PrepareSendPaymentRequest.Amount = Some (sint amountSats)\<rparr>
         = (prepareResp, SdkErrorPtr None)"
    and "sdk_SendPayment s
           \<lparr>SendPaymentRequest.PrepareResponse = prepareResp,
            Options = Some (SendPaymentOptionsBitcoinAddress OnchainConfirmationSpeedMedium)\<rparr>
         = (response, SdkErrorPtr None)"
  shows "SendBitcoinAddress w address amountSats =
           (Returns (paymentResponse (SendPaymentResponse.Payment response)),
            [CallPrepareSendPayment
               \<lparr>PrepareSendPaymentRequest.PaymentRequest = address,
                PrepareSendPaymentRequest.Amount = Some (sint amountSats)\<rparr>,
             CallSendPayment
               \<lparr>SendPaymentRequest.PrepareResponse = prepareResp,
                Options = Some (SendPaymentOptionsBitcoinAddress
                  OnchainConfirmationSpeedMedium)\<rparr>])"
  using assms by (simp add: SendBitcoinAddress_def Let_def)

text \<open>
  C3, as the code has it. A \<^verbatim>\<open>SendBitcoinAddress\<close> that succeeds has passed the requested
  amount to the prepare call and the prepare response, with the medium confirmation
  speed, to the send call. The amount and the fee of its result are those of the payment
  the SDK reports, read with \<^verbatim>\<open>Int64()\<close> and not changed otherwise: the amount is not
  negated and not compared with the requested amount. So for a reported amount and fee
  from 0 up to \<open>2^63 - 1\<close> the result's amount and fee are these numbers, and are not
  negative.
\<close>

theorem SendBitcoinAddress_result:
  assumes "sdk w = Some s"
    and "sdk_PrepareSendPayment s
           \<lparr>PrepareSendPaymentRequest.PaymentRequest = address,
            PrepareSendPaymentRequest.Amount = Some (sint amountSats)\<rparr>
         = (prepareResp, SdkErrorPtr None)"
    and "sdk_SendPayment s
           \<lparr>SendPaymentRequest.PrepareResponse = prepareResp,
            Options = Some (SendPaymentOptionsBitcoinAddress OnchainConfirmationSpeedMedium)\<rparr>
         = (response, SdkErrorPtr None)"
  shows "\<exists>r. fst (SendBitcoinAddress w address amountSats) = Returns r
           \<and> PaymentResponse.AmountSats r
               = Int64 (Payment.Amount (SendPaymentResponse.Payment response))
           \<and> PaymentResponse.FeeSats r
               = Int64 (Payment.Fees (SendPaymentResponse.Payment response))
           \<and> (0 \<le> Payment.Amount (SendPaymentResponse.Payment response)
                \<and> Payment.Amount (SendPaymentResponse.Payment response) < 2 ^ 63
              \<longrightarrow> sint (PaymentResponse.AmountSats r)
                    = Payment.Amount (SendPaymentResponse.Payment response))
           \<and> (0 \<le> Payment.Fees (SendPaymentResponse.Payment response)
                \<and> Payment.Fees (SendPaymentResponse.Payment response) < 2 ^ 63
              \<longrightarrow> sint (PaymentResponse.FeeSats r)
                    = Payment.Fees (SendPaymentResponse.Payment response))"
  using SendBitcoinAddress_returns [OF assms]
    sint_Int64 [of "Payment.Amount (SendPaymentResponse.Payment response)"]
    sint_Int64 [of "Payment.Fees (SendPaymentResponse.Payment response)"]
  by (simp add: paymentResponse_def)

theorem SendBitcoinAddress_result_witness:
  "sdk_SendPayment (example_sdk no_error example_info [sent_payment] example_input)
       \<lparr>SendPaymentRequest.PrepareResponse = PrepareSendPaymentResponse 1,
        Options = Some (SendPaymentOptionsBitcoinAddress OnchainConfirmationSpeedMedium)\<rparr>
     = (\<lparr>SendPaymentResponse.Payment = sent_payment\<rparr>, SdkErrorPtr None)
   \<and> (\<exists>r. fst (SendBitcoinAddress (example_wallet
               (example_sdk no_error example_info [sent_payment] example_input))
               ''bc1qaddr'' 1000) = Returns r
          \<and> sint (PaymentResponse.AmountSats r) = 1000
          \<and> sint (PaymentResponse.FeeSats r) = 3)"
proof -
  let ?s = "example_sdk no_error example_info [sent_payment] example_input"
  have h1: "sdk (example_wallet ?s) = Some ?s"
    by (simp add: example_wallet_def)
  have h2: "sdk_PrepareSendPayment ?s
           \<lparr>PrepareSendPaymentRequest.PaymentRequest = ''bc1qaddr'',
            PrepareSendPaymentRequest.Amount = Some (sint (1000 :: int64))\<rparr>
         = (PrepareSendPaymentResponse 1, SdkErrorPtr None)"
    by (simp add: example_sdk_def no_error_def)
  have h3: "sdk_SendPayment ?s
       \<lparr>SendPaymentRequest.PrepareResponse = PrepareSendPaymentResponse 1,
        Options = Some (SendPaymentOptionsBitcoinAddress OnchainConfirmationSpeedMedium)\<rparr>
     = (\<lparr>SendPaymentResponse.Payment = sent_payment\<rparr>, SdkErrorPtr None)"
    by (simp add: example_sdk_def no_error_def)
  show ?thesis
    using h3 SendBitcoinAddress_result [OF h1 h2 h3]
    by (auto simp: sent_payment_def)
qed

text \<open>
  Sending 1000 to an address, with the SDK reporting a payment of amount 1000 and fee 3:
  the result's amount is 1000, which is not negative.
\<close>

theorem SendBitcoinAddress_result_counterexample:
  "fst (SendBitcoinAddress (example_wallet
          (example_sdk no_error example_info [sent_payment] example_input)) ''bc1qaddr'' 1000)
     = Returns \<lparr>PaymentResponse.PaymentHash = ''p1'',
                PaymentResponse.AmountSats = 1000,
                PaymentResponse.FeeSats = 3,
                PaymentResponse.Status = StatusRune PaymentStatusCompleted,
                PaymentResponse.Preimage = [],
                PaymentResponse.CompletedAt = 1700000000\<rparr>
   \<and> \<not> sint (1000 :: int64) < 0"
  by (simp add: SendBitcoinAddress_def example_wallet_def example_sdk_def no_error_def
        Let_def paymentResponse_def sent_payment_def Int64_word_of_int)


subsection \<open>Required configuration\<close>




subsection \<open>One payment, listed and fetched\<close>

text \<open>
  C2 at a payment that the SDK tags as a send and reports with the amount 1000: the
  history lists it with the amount -1000 and the type "send", while \<^verbatim>\<open>GetPayment\<close> for
  its id returns the amount 1000 and the type "receive". Id and status agree.
\<close>

theorem GetPayment_differs_from_list:
  "fst (GetTransactions (example_wallet
          (example_sdk no_error example_info [sent_payment] example_input)) 10)
     = Returns [\<lparr>Transaction.ID = ''p1'',
                 Transaction.AmountSats = - 1000,
                 Transaction.FeeSats = 3,
                 Transaction.Status = StatusLiteral ''Complete'',
                 Transaction.Type = ''send'',
                 Transaction.Description = ''Payment'',
                 Transaction.Timestamp = 1700000000,
                 Transaction.PaymentHash = ''p1''\<rparr>]
   \<and> fst (GetPayment (example_wallet
          (example_sdk no_error example_info [sent_payment] example_input)) ''p1'')
     = Returns \<lparr>Transaction.ID = ''p1'',
                Transaction.AmountSats = 1000,
                Transaction.FeeSats = 3,
                Transaction.Status = StatusLiteral ''Complete'',
                Transaction.Type = ''receive'',
                Transaction.Description = ''Payment'',
                Transaction.Timestamp = 1700000000,
                Transaction.PaymentHash = ''p1''\<rparr>
   \<and> (- 1000 :: int64) \<noteq> 1000"
  by (simp add: GetTransactions_def GetPayment_def GetTransactions_body_def example_wallet_def
        example_sdk_def no_error_def page_def sent_payment_def Let_def Int64_word_of_int
        word_sless_alt)


subsection \<open>The error check after a call without error\<close>











end
